theory Spec2Isabelle
  imports Complex_Main "HOL-Library.Word" "HOL-Library.Multiset" "HOL-Library.Product_Lexorder"
begin

section \<open>Bitmap (bitmap.h, bitmap.cpp)\<close>

text \<open>
  A \<open>Bitmap\<close> keeps a set of \<open>uint32_t\<close> ids in one of two containers: the ordered
  \<open>std::set\<close> member \<open>set_\<close> for small cardinalities, or the compressed \<open>roaring_\<close>
  member.  Both containers are modelled by the set of ids they hold; iteration over a
  container visits its ids in ascending order.  The flag \<open>is_roaring_\<close> selects the live
  container, \<open>nbit_cache_\<close> and \<open>has_nbit_cache_\<close> are the cached cardinality.
\<close>

record Bitmap =
  bm_roaring :: "32 word set"
  bm_set :: "32 word set"
  bm_is_roaring :: bool
  bm_nbit_cache :: nat
  bm_has_nbit_cache :: bool

definition kSetThreshold :: nat where
  "kSetThreshold = 32"

definition Bitmap_init :: Bitmap where
  \<comment> \<open>the default constructor: both containers empty, member initialisers of the class\<close>
  "Bitmap_init = \<lparr>bm_roaring = {}, bm_set = {}, bm_is_roaring = False,
                   bm_nbit_cache = 0, bm_has_nbit_cache = False\<rparr>"

definition to_roaring :: "Bitmap \<Rightarrow> Bitmap" where
  "to_roaring b =
     (if \<not> bm_is_roaring b
      then b\<lparr>bm_roaring := fold insert (sorted_list_of_set (bm_set b)) (bm_roaring b),
             bm_set := {}, bm_is_roaring := True\<rparr>
      else b)"

definition Bitmap_Set :: "32 word \<Rightarrow> Bitmap \<Rightarrow> Bitmap" where
  "Bitmap_Set i b =
     (let b1 = (if bm_is_roaring b then b\<lparr>bm_roaring := insert i (bm_roaring b)\<rparr>
                else (let b2 = b\<lparr>bm_set := insert i (bm_set b)\<rparr>
                      in if card (bm_set b2) > kSetThreshold then to_roaring b2 else b2))
      in b1\<lparr>bm_has_nbit_cache := False\<rparr>)"

definition Bitmap_Unset :: "32 word \<Rightarrow> Bitmap \<Rightarrow> Bitmap" where
  "Bitmap_Unset i b =
     (let b1 = (if bm_is_roaring b then b\<lparr>bm_roaring := bm_roaring b - {i}\<rparr>
                else b\<lparr>bm_set := bm_set b - {i}\<rparr>)
      in b1\<lparr>bm_has_nbit_cache := False\<rparr>)"

definition Bitmap_Isset :: "Bitmap \<Rightarrow> 32 word \<Rightarrow> bool" where
  "Bitmap_Isset b i = (if bm_is_roaring b then i \<in> bm_roaring b else i \<in> bm_set b)"

definition Bitmap_SetRange :: "32 word \<Rightarrow> 32 word \<Rightarrow> Bitmap \<Rightarrow> Bitmap" where
  \<comment> \<open>\<open>roaring_.addRange(x, y)\<close> adds the half-open range from x up to y\<close>
  "Bitmap_SetRange x y b =
     (let b1 = to_roaring b
      in b1\<lparr>bm_roaring := bm_roaring b1 \<union> {x..<y}, bm_has_nbit_cache := False\<rparr>)"

definition Bitmap_SetMany :: "32 word list \<Rightarrow> Bitmap \<Rightarrow> Bitmap" where
  "Bitmap_SetMany ids b =
     (let b1 = (if ids \<noteq> []
                then (let b2 = to_roaring b in b2\<lparr>bm_roaring := fold insert ids (bm_roaring b2)\<rparr>)
                else b)
      in b1\<lparr>bm_has_nbit_cache := False\<rparr>)"

definition nbit :: "Bitmap \<Rightarrow> nat" where
  \<comment> \<open>the result type is \<open>uint32_t\<close>\<close>
  "nbit b = (if bm_is_roaring b then card (bm_roaring b) mod 2 ^ 32
             else card (bm_set b) mod 2 ^ 32)"

definition get_cached_nbit :: "Bitmap \<Rightarrow> nat \<times> Bitmap" where
  "get_cached_nbit b =
     (if \<not> bm_has_nbit_cache b
      then (nbit b, b\<lparr>bm_nbit_cache := nbit b, bm_has_nbit_cache := True\<rparr>)
      else (bm_nbit_cache b, b))"

definition Bitmap_empty :: "Bitmap \<Rightarrow> bool" where
  "Bitmap_empty b = (bm_roaring b = {} \<and> bm_set b = {})"

definition Bitmap_clear :: "Bitmap \<Rightarrow> Bitmap" where
  "Bitmap_clear b = b\<lparr>bm_roaring := {}, bm_set := {}, bm_is_roaring := False,
                        bm_has_nbit_cache := False\<rparr>"

definition Bitmap_copy :: "Bitmap \<Rightarrow> Bitmap \<Rightarrow> Bitmap" where
  \<comment> \<open>\<open>self.copy(other)\<close>; the cached number itself is not copied\<close>
  "Bitmap_copy other b = b\<lparr>bm_roaring := bm_roaring other, bm_set := bm_set other,
                              bm_is_roaring := bm_is_roaring other,
                              bm_has_nbit_cache := False\<rparr>"

definition Bitmap_copy_p :: "Bitmap option \<Rightarrow> Bitmap \<Rightarrow> Bitmap" where
  "Bitmap_copy_p pother b =
     (case pother of None \<Rightarrow> b
      | Some other \<Rightarrow> (Bitmap_copy other b)\<lparr>bm_has_nbit_cache := False\<rparr>)"

definition get_set_list :: "Bitmap \<Rightarrow> 32 word list" where
  "get_set_list b = (if bm_is_roaring b then sorted_list_of_set (bm_roaring b)
                     else sorted_list_of_set (bm_set b))"

definition to_set :: "Bitmap \<Rightarrow> Bitmap" where
  "to_set b =
     (if bm_is_roaring b
      then (let tmp = get_set_list b; b1 = Bitmap_clear b
            in b1\<lparr>bm_set := fold insert tmp (bm_set b1), bm_is_roaring := False\<rparr>)
      else b)"

definition Bitmap_Union :: "Bitmap \<Rightarrow> Bitmap \<Rightarrow> Bitmap" where
  \<comment> \<open>\<open>self.Union(other)\<close>, the overload taking a reference\<close>
  "Bitmap_Union other b =
     (let b1 = (if bm_is_roaring other
                then (let b2 = to_roaring b
                      in b2\<lparr>bm_roaring := bm_roaring b2 \<union> bm_roaring other\<rparr>)
                else fold Bitmap_Set (sorted_list_of_set (bm_set other)) b)
      in b1\<lparr>bm_has_nbit_cache := False\<rparr>)"

definition Bitmap_Union_p :: "Bitmap option \<Rightarrow> Bitmap \<Rightarrow> Bitmap" where
  "Bitmap_Union_p pother b =
     (case pother of None \<Rightarrow> b
      | Some other \<Rightarrow> (Bitmap_Union other b)\<lparr>bm_has_nbit_cache := False\<rparr>)"

definition Bitmap_Exclude :: "Bitmap \<Rightarrow> Bitmap \<Rightarrow> Bitmap" where
  \<comment> \<open>\<open>self.Exclude(other)\<close>, the overload taking a reference; the first branch returns
      before the assignment to \<open>has_nbit_cache_\<close> at the end of the function\<close>
  "Bitmap_Exclude other b =
     (if bm_is_roaring b \<and> bm_is_roaring other
      then b\<lparr>bm_roaring := bm_roaring b - bm_roaring other\<rparr>
      else (let b1 = (if \<not> bm_is_roaring other
                      then fold Bitmap_Unset (sorted_list_of_set (bm_set other)) b
                      else b\<lparr>bm_set := Set.filter (\<lambda>i. \<not> Bitmap_Isset other i) (bm_set b)\<rparr>)
            in b1\<lparr>bm_has_nbit_cache := False\<rparr>))"

definition Bitmap_Exclude_p :: "Bitmap option \<Rightarrow> Bitmap \<Rightarrow> Bitmap" where
  "Bitmap_Exclude_p pother b =
     (case pother of None \<Rightarrow> b
      | Some other \<Rightarrow> (Bitmap_Exclude other b)\<lparr>bm_has_nbit_cache := False\<rparr>)"

definition Bitmap_Intersect :: "Bitmap \<Rightarrow> Bitmap \<Rightarrow> Bitmap" where
  \<comment> \<open>\<open>self.Intersect(other)\<close>, the overload taking a reference; same early return\<close>
  "Bitmap_Intersect other b =
     (if bm_is_roaring b \<and> bm_is_roaring other
      then b\<lparr>bm_roaring := bm_roaring b \<inter> bm_roaring other\<rparr>
      else (let b1 = (if bm_is_roaring b
                      then (let s = fold (\<lambda>i acc. if Bitmap_Isset b i then insert i acc else acc)
                                         (sorted_list_of_set (bm_set other)) {}
                            in (Bitmap_clear b)\<lparr>bm_set := s, bm_is_roaring := False\<rparr>)
                      else b\<lparr>bm_set := Set.filter (\<lambda>i. Bitmap_Isset other i) (bm_set b)\<rparr>)
            in b1\<lparr>bm_has_nbit_cache := False\<rparr>))"

definition Bitmap_Intersect_p :: "Bitmap option \<Rightarrow> Bitmap \<Rightarrow> Bitmap" where
  "Bitmap_Intersect_p pother b =
     (case pother of None \<Rightarrow> b
      | Some other \<Rightarrow> (Bitmap_Intersect other b)\<lparr>bm_has_nbit_cache := False\<rparr>)"

definition Bitmap_Xor :: "Bitmap \<Rightarrow> Bitmap \<Rightarrow> Bitmap" where
  "Bitmap_Xor other b =
     (let b1 = to_roaring b;
          r = (if bm_is_roaring other then bm_roaring other
               else fold insert (sorted_list_of_set (bm_set other)) {})
      in b1\<lparr>bm_roaring := (bm_roaring b1 - r) \<union> (r - bm_roaring b1),
             bm_has_nbit_cache := False\<rparr>)"

definition Bitmap_Xor_p :: "Bitmap option \<Rightarrow> Bitmap \<Rightarrow> Bitmap" where
  "Bitmap_Xor_p pother b =
     (case pother of None \<Rightarrow> b
      | Some other \<Rightarrow> (Bitmap_Xor other b)\<lparr>bm_has_nbit_cache := False\<rparr>)"

text \<open>
  \<open>FastUnion\<close> first folds in every roaring argument, removing it from the argument vector
  by swapping it with the last element, then unions the remaining (small-set) arguments
  one by one.  The vector holds non-null pointers.
\<close>

function FastUnion_loop :: "Bitmap list \<Rightarrow> nat \<Rightarrow> bool \<Rightarrow> Bitmap \<Rightarrow> Bitmap list \<times> bool \<times> Bitmap" where
  "FastUnion_loop bitmaps i lazy b =
     (if i < length bitmaps
      then (if \<not> bm_is_roaring (bitmaps ! i)
            then FastUnion_loop bitmaps (i + 1) lazy b
            else FastUnion_loop (butlast (bitmaps[i := last bitmaps])) i True
                   (b\<lparr>bm_roaring := bm_roaring b \<union> bm_roaring (bitmaps ! i)\<rparr>))
      else (bitmaps, lazy, b))"
  by pat_completeness auto
termination
  by (relation "measure (\<lambda>(bitmaps, i, lazy, b). length bitmaps - i)") auto

definition Bitmap_FastUnion :: "Bitmap list \<Rightarrow> Bitmap \<Rightarrow> Bitmap" where
  "Bitmap_FastUnion bitmaps b =
     (if bitmaps = [] then b
      else if length bitmaps = 1 then Bitmap_Union_p (Some (bitmaps ! 0)) b
      else (case FastUnion_loop bitmaps 0 False (to_roaring b) of
              (rest, lazy, b1) \<Rightarrow>
                (fold (\<lambda>o1 acc. Bitmap_Union_p (Some o1) acc) rest b1)
                  \<lparr>bm_has_nbit_cache := False\<rparr>))"

definition Bitmap_ParseFromString :: "32 word set \<Rightarrow> Bitmap \<Rightarrow> Bitmap" where
  \<comment> \<open>the serialised string is represented by the id set that \<open>Roaring::read\<close> decodes from it\<close>
  "Bitmap_ParseFromString s b =
     (let b1 = (Bitmap_clear b)\<lparr>bm_is_roaring := True, bm_roaring := s\<rparr>;
          b2 = (if card (bm_roaring b1) \<le> kSetThreshold then to_set b1 else b1)
      in b2\<lparr>bm_has_nbit_cache := False\<rparr>)"

definition bits :: "Bitmap \<Rightarrow> 32 word set" where
  \<comment> \<open>the set a bitmap denotes: what \<open>Isset\<close> answers\<close>
  "bits b = {i. Bitmap_Isset b i}"

section \<open>RangedMap (ranged_map.h, ranged_map.cpp)\<close>

text \<open>
  A \<open>RangedMap\<close> stores one \<open>double\<close> per offset and keeps the stored pairs in slots
  ordered by value.  Values are modelled by reals.  The code uses NaN only as the mark
  "no value" in \<open>offset_to_value_\<close>: an entry of that vector is \<open>None\<close> for NaN and
  \<open>Some v\<close> otherwise.  The values handed to \<open>add_offset_and_score\<close> and the bounds of
  a query are numbers.
\<close>

record SlotMeta =
  slot_left :: real
  slot_right :: real
  slot_bitmap :: Bitmap
  value_vec :: "real list"
  offset_vec :: "32 word list"

record RangedMap =
  offset_to_value :: "real option list"
  slots :: "SlotMeta list"

definition kRangedMapSlotSize :: nat where
  \<comment> \<open>initial value of the file-level variable \<open>static int kRangedMapSlotSize\<close>; the
      functions below take the current value of the variable as the argument \<open>slot_size\<close>\<close>
  "kRangedMapSlotSize = 10000"

definition RangedMap_init :: RangedMap where
  "RangedMap_init = \<lparr>offset_to_value = [], slots = []\<rparr>"

definition get_score_by_offset :: "RangedMap \<Rightarrow> 32 word \<Rightarrow> real option" where
  "get_score_by_offset rm offset =
     (if unat offset < length (offset_to_value rm) then offset_to_value rm ! unat offset
      else Some (-99999999.0))"

text \<open>
  \<open>std::lower_bound\<close> and \<open>std::upper_bound\<close> on an ascending vector: the index of the
  first element not less than, respectively greater than, the value.
\<close>

definition std_lower_bound :: "real list \<Rightarrow> real \<Rightarrow> nat" where
  "std_lower_bound xs v = length (takeWhile (\<lambda>x. x < v) xs)"

definition std_upper_bound :: "real list \<Rightarrow> real \<Rightarrow> nat" where
  "std_upper_bound xs v = length (takeWhile (\<lambda>x. x \<le> v) xs)"

function slot_lower_bound_loop :: "SlotMeta list \<Rightarrow> real \<Rightarrow> nat \<Rightarrow> nat \<Rightarrow> nat" where
  "slot_lower_bound_loop sl val l r =
     (if l < r
      then (let mid = l + (r - l) div 2
            in if val > slot_right (sl ! mid) then slot_lower_bound_loop sl val (mid + 1) r
               else if val \<le> slot_left (sl ! mid) then slot_lower_bound_loop sl val l mid
               else mid)
      else l)"
  by pat_completeness auto
termination
  by (relation "measure (\<lambda>(sl, val, l, r). r - l)") auto

definition slot_lower_bound_idx :: "SlotMeta list \<Rightarrow> real \<Rightarrow> nat" where
  "slot_lower_bound_idx sl val = slot_lower_bound_loop sl val 0 (length sl)"

function slot_upper_bound_loop :: "SlotMeta list \<Rightarrow> real \<Rightarrow> nat \<Rightarrow> nat \<Rightarrow> nat" where
  "slot_upper_bound_loop sl val l r =
     (if l < r
      then (let mid = l + (r - l) div 2
            in if val \<ge> slot_right (sl ! mid) then slot_upper_bound_loop sl val (mid + 1) r
               else if val < slot_left (sl ! mid) then slot_upper_bound_loop sl val l mid
               else mid)
      else l)"
  by pat_completeness auto
termination
  by (relation "measure (\<lambda>(sl, val, l, r). r - l)") auto

definition slot_upper_bound_idx :: "SlotMeta list \<Rightarrow> real \<Rightarrow> nat" where
  "slot_upper_bound_idx sl val = slot_upper_bound_loop sl val 0 (length sl)"

definition find_right_slot_index :: "SlotMeta list \<Rightarrow> real \<Rightarrow> bool \<Rightarrow> int" where
  \<comment> \<open>called with a non-empty slot vector only\<close>
  "find_right_slot_index sl lower_than include_le =
     (if include_le
      then (let slot_idx = min (int (slot_upper_bound_idx sl lower_than)) (int (length sl) - 1)
            in if lower_than < slot_left (sl ! nat slot_idx) then slot_idx - 1 else slot_idx)
      else (let slot_idx = min (int (slot_lower_bound_idx sl lower_than)) (int (length sl) - 1)
            in if lower_than \<le> slot_left (sl ! nat slot_idx) then slot_idx - 1 else slot_idx))"

definition find_left_slot_index :: "SlotMeta list \<Rightarrow> real \<Rightarrow> bool \<Rightarrow> int" where
  "find_left_slot_index sl greater_than include_ge =
     (if include_ge then int (slot_lower_bound_idx sl greater_than)
      else int (slot_upper_bound_idx sl greater_than))"

definition get_right_border :: "SlotMeta \<Rightarrow> real \<Rightarrow> bool \<Rightarrow> nat" where
  "get_right_border slot lower_than include_le =
     (if include_le then std_upper_bound (value_vec slot) lower_than
      else std_lower_bound (value_vec slot) lower_than)"

definition get_left_border :: "SlotMeta \<Rightarrow> real \<Rightarrow> bool \<Rightarrow> nat" where
  "get_left_border slot greater_than include_ge =
     (if include_ge then std_lower_bound (value_vec slot) greater_than
      else std_upper_bound (value_vec slot) greater_than)"

text \<open>The three collectors return the number of offsets they report as \<open>uint32_t\<close>.\<close>

definition get_lower_than_data :: "SlotMeta \<Rightarrow> Bitmap \<Rightarrow> real \<Rightarrow> bool \<Rightarrow> 32 word \<times> Bitmap" where
  "get_lower_than_data slot to lower_than include_le =
     (let bound_idx = get_right_border slot lower_than include_le
      in (of_nat bound_idx, fold Bitmap_Set (take bound_idx (offset_vec slot)) to))"

definition get_greater_than_data :: "SlotMeta \<Rightarrow> Bitmap \<Rightarrow> real \<Rightarrow> bool \<Rightarrow> 32 word \<times> Bitmap" where
  "get_greater_than_data slot to greater_than include_ge =
     (let bound_idx = get_left_border slot greater_than include_ge
      in (of_nat (length (offset_vec slot)) - of_nat bound_idx,
          fold Bitmap_Set (drop bound_idx (offset_vec slot)) to))"

definition get_range_data :: "SlotMeta \<Rightarrow> Bitmap \<Rightarrow> real \<Rightarrow> bool \<Rightarrow> real \<Rightarrow> bool \<Rightarrow> 32 word \<times> Bitmap" where
  "get_range_data slot to lower_than include_le greater_than include_ge =
     (let l_border = get_left_border slot greater_than include_ge;
          r_border = get_right_border slot lower_than include_le
      in (of_nat r_border - of_nat l_border,
          fold Bitmap_Set (take (r_border - l_border) (drop l_border (offset_vec slot))) to))"

definition split_half_to_new_slot :: "SlotMeta \<Rightarrow> SlotMeta \<Rightarrow> bool \<times> SlotMeta \<times> SlotMeta" where
  \<comment> \<open>\<open>self.split_half_to_new_slot(new_slot)\<close>: the result, the slot itself and the new slot\<close>
  "split_half_to_new_slot slot new_slot =
     (if length (value_vec slot) < 2 then (False, slot, new_slot)
      else
        let split_idx = length (value_vec slot) div 2;
            nv = drop split_idx (value_vec slot);
            nf = drop split_idx (offset_vec slot);
            new_slot1 = new_slot\<lparr>value_vec := nv, offset_vec := nf,
                          slot_bitmap := Bitmap_SetMany nf (slot_bitmap new_slot),
                          slot_left := hd nv, slot_right := last nv\<rparr>;
            ov = take split_idx (value_vec slot);
            of1 = take split_idx (offset_vec slot);
            slot1 = slot\<lparr>value_vec := ov, offset_vec := of1,
                         slot_bitmap := Bitmap_SetMany of1 (Bitmap_clear (slot_bitmap slot)),
                         slot_right := last ov\<rparr>
        in (True, slot1, new_slot1))"

definition resize_nan :: "nat \<Rightarrow> real option list \<Rightarrow> real option list" where
  \<comment> \<open>\<open>resize(n, NaN)\<close>\<close>
  "resize_nan n xs = (if n \<le> length xs then take n xs else xs @ replicate (n - length xs) None)"

definition add_offset_and_score :: "nat \<Rightarrow> 32 word \<Rightarrow> real \<Rightarrow> RangedMap \<Rightarrow> (int \<times> RangedMap) option" where
  \<comment> \<open>The result \<open>None\<close> stands for undefined behaviour: for the largest offset the new
      size \<open>offset + 1\<close> wraps to 0 and the following store is out of range.\<close>
  "add_offset_and_score slot_size offset value rm =
     (if unat offset < length (offset_to_value rm) \<and> offset_to_value rm ! unat offset \<noteq> None
      then Some (-1, rm)
      else
        let otv1 = (if unat offset \<ge> length (offset_to_value rm)
                    then resize_nan (unat (offset + 1)) (offset_to_value rm)
                    else offset_to_value rm)
        in if unat offset \<ge> length otv1 then None
           else
             let rm1 = rm\<lparr>offset_to_value := otv1[unat offset := Some value]\<rparr>
             in if slots rm1 = []
                then Some (0, rm1\<lparr>slots := [\<lparr>slot_left = value, slot_right = value,
                                                 slot_bitmap = Bitmap_Set offset Bitmap_init,
                                                 value_vec = [value], offset_vec = [offset]\<rparr>]\<rparr>)
                else
                  let i0 = find_right_slot_index (slots rm1) value True;
                      slot_idx = (if i0 = -1 then 0 else nat i0);
                      add_slot = slots rm1 ! slot_idx;
                      vec_idx = std_upper_bound (value_vec add_slot) value;
                      add_slot1 = add_slot\<lparr>
                         slot_bitmap := Bitmap_Set offset (slot_bitmap add_slot),
                         value_vec := take vec_idx (value_vec add_slot) @ value # drop vec_idx (value_vec add_slot),
                         offset_vec := take vec_idx (offset_vec add_slot) @ offset # drop vec_idx (offset_vec add_slot),
                         slot_left := min value (slot_left add_slot),
                         slot_right := max value (slot_right add_slot)\<rparr>;
                      sl1 = (slots rm1)[slot_idx := add_slot1]
                  in if length (value_vec add_slot1) > slot_size * 2
                     then
                       let new_slot = \<lparr>slot_left = 0, slot_right = 0, slot_bitmap = Bitmap_init,
                                        value_vec = [], offset_vec = []\<rparr>
                       in (case split_half_to_new_slot add_slot1 new_slot of
                             (ok, a, b) \<Rightarrow>
                               Some (0, rm1\<lparr>slots := take slot_idx sl1 @ a # b # drop (slot_idx + 1) sl1\<rparr>))
                     else Some (0, rm1\<lparr>slots := sl1\<rparr>))"

fun find_slot_with_offset :: "SlotMeta list \<Rightarrow> 32 word \<Rightarrow> nat \<Rightarrow> nat" where
  \<comment> \<open>\<open>while (slot_idx < slots_.size() && !slots_[slot_idx].bitmap->Isset(offset)) slot_idx++\<close>,
      on the slots from \<open>slot_idx\<close> on\<close>
  "find_slot_with_offset [] offset slot_idx = slot_idx"
| "find_slot_with_offset (s # rest) offset slot_idx =
     (if \<not> Bitmap_Isset (slot_bitmap s) offset then find_slot_with_offset rest offset (slot_idx + 1)
      else slot_idx)"

fun find_offset_from :: "32 word list \<Rightarrow> 32 word \<Rightarrow> nat \<Rightarrow> nat" where
  \<comment> \<open>\<open>while (offset_it != end && *offset_it != offset) offset_it++\<close>, on the elements from
      position \<open>i\<close> on; the result is the length of the vector when the end is reached\<close>
  "find_offset_from [] offset i = i"
| "find_offset_from (x # rest) offset i =
     (if x \<noteq> offset then find_offset_from rest offset (i + 1) else i)"

definition delete_offset :: "32 word \<Rightarrow> RangedMap \<Rightarrow> int \<times> RangedMap" where
  "delete_offset offset rm =
     (if slots rm = [] then (-1, rm)
      else if unat offset \<ge> length (offset_to_value rm) \<or> offset_to_value rm ! unat offset = None
      then (-1, rm)
      else
        let value = the (offset_to_value rm ! unat offset);
            rm1 = rm\<lparr>offset_to_value := (offset_to_value rm)[unat offset := None]\<rparr>;
            i0 = nat (find_left_slot_index (slots rm1) value True);
            slot_idx = find_slot_with_offset (drop i0 (slots rm1)) offset i0
        in if slot_idx \<ge> length (slots rm1) then (-1, rm1)
           else
             let delete_slot = slots rm1 ! slot_idx;
                 delete_slot1 = delete_slot\<lparr>slot_bitmap := Bitmap_Unset offset (slot_bitmap delete_slot)\<rparr>;
                 rm2 = rm1\<lparr>slots := (slots rm1)[slot_idx := delete_slot1]\<rparr>;
                 p0 = std_lower_bound (value_vec delete_slot1) value;
                 vec_idx = find_offset_from (drop p0 (offset_vec delete_slot1)) offset p0
             in if vec_idx \<ge> length (offset_vec delete_slot1) then (-1, rm2)
                else
                  let ofs = take vec_idx (offset_vec delete_slot1) @ drop (vec_idx + 1) (offset_vec delete_slot1);
                      vs = take vec_idx (value_vec delete_slot1) @ drop (vec_idx + 1) (value_vec delete_slot1);
                      delete_slot2 = delete_slot1\<lparr>offset_vec := ofs, value_vec := vs\<rparr>
                  in if vs \<noteq> []
                     then (0, rm2\<lparr>slots := (slots rm2)[slot_idx :=
                                  delete_slot2\<lparr>slot_left := hd vs, slot_right := last vs\<rparr>]\<rparr>)
                     else (0, rm2\<lparr>slots := take slot_idx (slots rm2) @ drop (slot_idx + 1) (slots rm2)\<rparr>))"

definition union_slots :: "SlotMeta list \<Rightarrow> 32 word \<times> Bitmap \<Rightarrow> 32 word \<times> Bitmap" where
  \<comment> \<open>the loops \<open>temp_p->Union(slots_[i].bitmap.get()); cnt += slots_[i].offset_vec.size()\<close>
      over a run of consecutive slots\<close>
  "union_slots run acc =
     fold (\<lambda>slot (cnt, temp). (cnt + of_nat (length (offset_vec slot)),
                                 Bitmap_Union_p (Some (slot_bitmap slot)) temp)) run acc"

definition get_range_bitmap_with_slot_data ::
  "RangedMap \<Rightarrow> bool \<Rightarrow> real \<Rightarrow> bool \<Rightarrow> real \<Rightarrow> bool \<Rightarrow> Bitmap option" where
  "get_range_bitmap_with_slot_data rm range_out lower_than0 include_le0 greater_than0 include_ge0 =
     (if slots rm = [] then None
      else
        let sl = slots rm;
            n = int (length sl);
            swap = (range_out \<and> lower_than0 < greater_than0);
            lower_than = (if swap then greater_than0 else lower_than0);
            greater_than = (if swap then lower_than0 else greater_than0);
            include_le = (if swap then include_ge0 else include_le0);
            include_ge = (if swap then include_le0 else include_ge0);
            r_index = find_right_slot_index sl lower_than include_le;
            l_index = find_left_slot_index sl greater_than include_ge;
            res =
              (if \<not> range_out
               then
                 let a1 = union_slots (take (nat r_index - nat (l_index + 1)) (drop (nat (l_index + 1)) sl))
                            (0, Bitmap_init)
                 in if r_index \<noteq> -1 \<and> l_index \<noteq> n
                    then (if l_index < r_index
                          then (case get_lower_than_data (sl ! nat r_index) (snd a1) lower_than include_le of
                                  (c1, t1) \<Rightarrow>
                                    (case get_greater_than_data (sl ! nat l_index) t1 greater_than include_ge of
                                       (c2, t2) \<Rightarrow> (fst a1 + c1 + c2, t2)))
                          else if l_index = r_index
                          then (case get_range_data (sl ! nat r_index) (snd a1) lower_than include_le
                                       greater_than include_ge of
                                  (c1, t1) \<Rightarrow> (fst a1 + c1, t1))
                          else a1)
                    else a1
               else
                 let a1 = union_slots (take (nat l_index) sl) (0, Bitmap_init);
                     a2 = (if l_index \<noteq> n \<and> l_index \<noteq> -1
                           then (case get_lower_than_data (sl ! nat l_index) (snd a1) greater_than (\<not> include_ge) of
                                   (c1, t1) \<Rightarrow> (fst a1 + c1, t1))
                           else a1);
                     a3 = union_slots (drop (nat (r_index + 1)) sl) a2
                 in if r_index \<noteq> -1 \<and> r_index \<noteq> n
                    then (case get_greater_than_data (sl ! nat r_index) (snd a3) lower_than (\<not> include_le) of
                            (c1, t1) \<Rightarrow> (fst a3 + c1, t1))
                    else a3)
        in if fst res \<le> 0 then None else Some (snd res))"

definition get_range_bitmap :: "RangedMap \<Rightarrow> bool \<Rightarrow> real \<Rightarrow> bool \<Rightarrow> real \<Rightarrow> bool \<Rightarrow> Bitmap option" where
  "get_range_bitmap rm range_out lower_than include_le greater_than include_ge =
     get_range_bitmap_with_slot_data rm range_out lower_than include_le greater_than include_ge"

subsection \<open>Top-k with tie-break conditions\<close>

text \<open>
  Comparison of two \<open>double\<close> results of \<open>get_score_by_offset\<close>, which may be NaN: inequality
  is true as soon as one side is NaN, greater-than is false then.
\<close>

definition double_neq :: "real option \<Rightarrow> real option \<Rightarrow> bool" where
  "double_neq a b = (case (a, b) of (Some x, Some y) \<Rightarrow> x \<noteq> y | _ \<Rightarrow> True)"

definition double_gt :: "real option \<Rightarrow> real option \<Rightarrow> bool" where
  "double_gt a b = (case (a, b) of (Some x, Some y) \<Rightarrow> x > y | _ \<Rightarrow> False)"

fun cond_func_conditions :: "(RangedMap \<times> bool) list \<Rightarrow> 32 word \<Rightarrow> 32 word \<Rightarrow> bool" where
  "cond_func_conditions [] idx_l idx_r = False"
| "cond_func_conditions (condition # rest) idx_l idx_r =
     (let value_l = get_score_by_offset (fst condition) idx_l;
          value_r = get_score_by_offset (fst condition) idx_r
      in if double_neq value_l value_r then (double_gt value_l value_r \<noteq> snd condition)
         else cond_func_conditions rest idx_l idx_r)"

definition cond_func :: "RangedMap \<Rightarrow> bool \<Rightarrow> (RangedMap \<times> bool) list \<Rightarrow> 32 word \<Rightarrow> 32 word \<Rightarrow> bool" where
  "cond_func rm this_order_asc conditions idx_l idx_r =
     (let value_l = get_score_by_offset rm idx_l;
          value_r = get_score_by_offset rm idx_r
      in if double_neq value_l value_r then (double_gt value_l value_r \<noteq> this_order_asc)
         else cond_func_conditions conditions idx_l idx_r)"

text \<open>
  \<open>std::sort\<close> with a comparator puts the elements in an order in which no element is
  less than one before it; it is represented by insertion sort.
\<close>

fun insert_sorted :: "('a \<Rightarrow> 'a \<Rightarrow> bool) \<Rightarrow> 'a \<Rightarrow> 'a list \<Rightarrow> 'a list" where
  "insert_sorted cmp x [] = [x]"
| "insert_sorted cmp x (y # ys) = (if cmp x y then x # y # ys else y # insert_sorted cmp x ys)"

definition std_sort :: "('a \<Rightarrow> 'a \<Rightarrow> bool) \<Rightarrow> 'a list \<Rightarrow> 'a list" where
  "std_sort cmp xs = foldl (\<lambda>acc x. insert_sorted cmp x acc) [] xs"

definition sort_with_conditions ::
  "RangedMap \<Rightarrow> 32 word list \<Rightarrow> int \<Rightarrow> bool \<Rightarrow> (RangedMap \<times> bool) list
   \<Rightarrow> real option list \<times> 32 word list" where
  \<comment> \<open>the \<open>RecallResult\<close>: scores and offsets\<close>
  "sort_with_conditions rm offsets topk this_order_asc conditions =
     (let sorted_offsets = std_sort (cond_func rm this_order_asc conditions) offsets;
          offsets1 = take (min (length sorted_offsets) (nat (topk mod 2 ^ 64))) sorted_offsets
      in (map (get_score_by_offset rm) offsets1, offsets1))"

fun scan_slot ::
  "(32 word \<Rightarrow> bool) option \<Rightarrow> int \<Rightarrow> int \<Rightarrow> (real \<times> 32 word) list
   \<Rightarrow> 32 word list \<times> int \<times> real \<Rightarrow> 32 word list \<times> int \<times> real" where
  \<comment> \<open>the inner loop over one slot; the list holds the pairs \<open>(value_vec[i], offset_vec[i])\<close> in the
      order the loop visits them, the state is \<open>(temp_offsets, cnt, last_score)\<close>\<close>
  "scan_slot filter_func topk max_size [] st = st"
| "scan_slot filter_func topk max_size ((this_score, offset) # rest) (temp_offsets, cnt, last_score) =
     (if (case filter_func of None \<Rightarrow> False | Some f \<Rightarrow> f offset)
      then scan_slot filter_func topk max_size rest (temp_offsets, cnt, last_score)
      else if cnt + 1 \<ge> max_size then (temp_offsets @ [offset], cnt + 1, last_score)
      else if cnt + 1 > max topk 1 \<and> last_score \<noteq> this_score then (temp_offsets @ [offset], cnt + 1, last_score)
      else scan_slot filter_func topk max_size rest (temp_offsets @ [offset], cnt + 1, this_score))"

fun scan_slots ::
  "(32 word \<Rightarrow> bool) option \<Rightarrow> int \<Rightarrow> int \<Rightarrow> bool \<Rightarrow> SlotMeta list
   \<Rightarrow> 32 word list \<times> int \<times> real \<Rightarrow> 32 word list \<times> int \<times> real" where
  \<comment> \<open>the outer loop \<open>for (slot_idx = 0; slot_idx < slots_.size() && cnt < max_size; slot_idx++)\<close>;
      the variables \<open>slot_from\<close> and \<open>slot_to\<close> computed before it are not used by it\<close>
  "scan_slots filter_func topk max_size this_order_asc [] st = st"
| "scan_slots filter_func topk max_size this_order_asc (slot # rest) (temp_offsets, cnt, last_score) =
     (if cnt < max_size
      then (let idxs = (if this_order_asc then [0 ..< length (offset_vec slot)]
                        else rev [0 ..< length (offset_vec slot)])
            in scan_slots filter_func topk max_size this_order_asc rest
                 (scan_slot filter_func topk max_size
                    (map (\<lambda>i. (value_vec slot ! i, offset_vec slot ! i)) idxs)
                    (temp_offsets, cnt, last_score)))
      else (temp_offsets, cnt, last_score))"

definition kRangedMapSortMultiplier :: int where
  "kRangedMapSortMultiplier = 2"

definition get_topk_result_with_slot_data_with_conditions ::
  "RangedMap \<Rightarrow> int \<Rightarrow> bool \<Rightarrow> (32 word \<Rightarrow> bool) option \<Rightarrow> (RangedMap \<times> bool) list
   \<Rightarrow> real option list \<times> 32 word list" where
  "get_topk_result_with_slot_data_with_conditions rm topk this_order_asc filter_func conditions =
     (let max_size = topk * kRangedMapSortMultiplier
      in case scan_slots filter_func topk max_size this_order_asc (slots rm) ([], 0, 0) of
           (temp_offsets, cnt, last_score) \<Rightarrow>
             sort_with_conditions rm temp_offsets topk this_order_asc conditions)"

definition get_topk_result_with_conditions ::
  "RangedMap \<Rightarrow> int \<Rightarrow> bool \<Rightarrow> (32 word \<Rightarrow> bool) option \<Rightarrow> (RangedMap \<times> bool) list
   \<Rightarrow> real option list \<times> 32 word list" where
  "get_topk_result_with_conditions rm topk this_order_asc filter_func conditions =
     get_topk_result_with_slot_data_with_conditions rm topk this_order_asc filter_func conditions"

subsection \<open>RangedMap2D\<close>

record RangedMap2D =
  x_map :: RangedMap
  y_map :: RangedMap

definition dist_square_to :: "RangedMap2D \<Rightarrow> real \<Rightarrow> real \<Rightarrow> 32 word \<Rightarrow> real option" where
  \<comment> \<open>a NaN operand gives NaN; the offsets passed are inside both vectors (they come from
      the range bitmaps of both maps), a read outside is given the result NaN here\<close>
  "dist_square_to m x y offset =
     (if unat offset < length (offset_to_value (x_map m)) \<and> unat offset < length (offset_to_value (y_map m))
      then (case (offset_to_value (x_map m) ! unat offset, offset_to_value (y_map m) ! unat offset) of
              (Some vx, Some vy) \<Rightarrow> Some ((vx - x) * (vx - x) + (vy - y) * (vy - y))
            | _ \<Rightarrow> None)
      else None)"

definition get_range2d_bitmap_with_slot_data :: "RangedMap2D \<Rightarrow> real \<Rightarrow> real \<Rightarrow> real \<Rightarrow> Bitmap option" where
  "get_range2d_bitmap_with_slot_data m x y radius =
     (if radius \<le> 0 then None
      else case get_range_bitmap_with_slot_data (x_map m) False (x + radius) True (x - radius) True of
             None \<Rightarrow> None
           | Some temp \<Rightarrow>
               if Bitmap_empty temp then None
               else case get_range_bitmap_with_slot_data (y_map m) False (y + radius) True (y - radius) True of
                      None \<Rightarrow> None
                    | Some y_temp \<Rightarrow>
                        if Bitmap_empty y_temp then None
                        else
                          let temp1 = Bitmap_Intersect_p (Some y_temp) temp;
                              offsets = get_set_list temp1;
                              dist_square_max = radius * radius;
                              temp2 = fold (\<lambda>offset t.
                                              if double_gt (dist_square_to m x y offset) (Some dist_square_max)
                                              then Bitmap_Unset offset t else t) offsets temp1
                          in (case get_cached_nbit temp2 of
                                (n, temp3) \<Rightarrow> if n \<le> 0 then None else Some temp3))"

definition get_range2d_bitmap :: "RangedMap2D \<Rightarrow> real \<Rightarrow> real \<Rightarrow> real \<Rightarrow> Bitmap option" where
  "get_range2d_bitmap m x y radius = get_range2d_bitmap_with_slot_data m x y radius"

section \<open>Brute-force vector store (bruteforce.h)\<close>

text \<open>
  One element of \<open>data_buffer_\<close>: the encoded vector followed by the label and the
  logical offset.  The buffer is an array indexed by the physical row index; the encoded
  vector is kept abstract (type \<open>'v\<close>).
\<close>

record 'v Row =
  row_vec :: 'v
  row_label :: "64 word"
  row_offset :: "32 word"

text \<open>
  The sparse side (sparse_dataset.h) stores one sparse datapoint per row; a datapoint is
  its index vector and its value vector.  The CSR arrays are represented by the list of
  rows they encode.
\<close>

type_synonym SparseDatapoint = "32 word list \<times> real list"

datatype vs_error =
    Sparse_data_conversion_failed
  | Failed_to_update_sparse_data
  | Sparse_Dense_index_inconsistency
  | Failed_to_append_sparse_data
  | Failed_to_append_empty_sparse_data
  | update_out_of_bounds
  | get_row_out_of_bounds

definition SparseDataset_append :: "SparseDatapoint \<Rightarrow> SparseDatapoint list \<Rightarrow> int \<times> SparseDatapoint list" where
  "SparseDataset_append dp rows =
     (if length (snd dp) \<noteq> length (fst dp) then (-1, rows) else (0, rows @ [dp]))"

definition SparseDataset_update ::
  "nat \<Rightarrow> SparseDatapoint \<Rightarrow> SparseDatapoint list \<Rightarrow> vs_error + (int \<times> SparseDatapoint list)" where
  "SparseDataset_update idx dp rows =
     (if idx \<ge> length rows then Inl update_out_of_bounds
      else if length (snd dp) \<noteq> length (fst dp) then Inr (-1, rows)
      else Inr (0, rows[idx := dp]))"

definition SparseDataset_get_row :: "nat \<Rightarrow> SparseDatapoint list \<Rightarrow> vs_error + SparseDatapoint" where
  "SparseDataset_get_row i rows =
     (if i \<ge> length rows then Inl get_row_out_of_bounds else Inr (rows ! i))"

definition SparseDataset_pop_back :: "SparseDatapoint list \<Rightarrow> int \<times> SparseDatapoint list" where
  "SparseDataset_pop_back rows = (if rows = [] then (0, rows) else (0, butlast rows))"

text \<open>
  The sparse argument of \<open>add_point\<close> and \<open>search_knn\<close> is a nullable pointer to raw terms
  and values; \<open>make_sparse_point_by_low_level\<close> turns it into a datapoint through the term
  dictionary or fails.  The argument is represented by the outcome of that conversion.
\<close>

datatype sparse_arg = Sparse_null | Sparse_bad | Sparse_ok SparseDatapoint

text \<open>
  The physical row index is a \<open>size_t\<close> in \<open>current_count_\<close> and in the address
  computations, and an \<open>int\<close> in \<open>label_map_\<close>, in \<open>offset_map_\<close> and in the local
  \<open>index\<close> of \<open>add_point\<close>.  An \<open>int\<close> is kept as the 32-bit word of its two's complement
  representation: storing a \<open>size_t\<close> in an \<open>int\<close> keeps the low 32 bits, reading an \<open>int\<close>
  as a \<open>size_t\<close> extends the sign to 64 bits.
\<close>

definition index_of_size_t :: "nat \<Rightarrow> 32 word" where
  "index_of_size_t n = word_of_nat n"

definition size_t_of_index :: "32 word \<Rightarrow> nat" where
  "size_t_of_index index = nat (sint index mod 2 ^ 64)"

text \<open>
  \<open>data_buffer_\<close> holds \<open>capacity_\<close> rows; the function \<open>data_buffer\<close> gives the content of
  the allocated rows, and its values from \<open>capacity\<close> on stand for what \<open>realloc\<close> will hand
  out there.  An access to a row at or beyond \<open>capacity_\<close> lies outside the buffer: the
  behaviour of the program is undefined, and the functions below return \<open>None\<close>.  The
  allocations themselves are taken to succeed.
\<close>

record 'v BruteforceSearch =
  data_buffer :: "nat \<Rightarrow> 'v Row"
  capacity :: nat
  current_count :: nat
  label_map :: "64 word \<rightharpoonup> 32 word"
  offset_map :: "32 word \<rightharpoonup> 32 word"
  next_logical_offset :: "64 word"
  sparse_index :: "SparseDatapoint list option"
  reverse_query_score :: bool
  search_with_sparse_logit_alpha :: real
  dist_func :: "'v \<Rightarrow> 'v \<Rightarrow> real"
  sparse_logit_func :: "SparseDatapoint list \<Rightarrow> SparseDatapoint \<Rightarrow> nat \<Rightarrow> real"

definition BruteforceSearch_init ::
  "(nat \<Rightarrow> 'v Row) \<Rightarrow> nat \<Rightarrow> bool \<Rightarrow> bool \<Rightarrow> real \<Rightarrow> ('v \<Rightarrow> 'v \<Rightarrow> real)
   \<Rightarrow> (SparseDatapoint list \<Rightarrow> SparseDatapoint \<Rightarrow> nat \<Rightarrow> real) \<Rightarrow> 'v BruteforceSearch" where
  \<comment> \<open>the constructor: \<open>buf\<close> is the content of the freshly allocated buffer,
      \<open>max_element_count\<close>, \<open>enable_sparse\<close>, \<open>l2\<close> (distance type), \<open>alpha\<close> and the two
      metric functions come from the meta\<close>
  "BruteforceSearch_init buf max_element_count enable_sparse l2 alpha df sf =
     \<lparr>data_buffer = buf, capacity = max 1 max_element_count, current_count = 0,
      label_map = Map.empty, offset_map = Map.empty,
      next_logical_offset = 0,
      sparse_index = (if enable_sparse then Some [] else None),
      reverse_query_score = l2, search_with_sparse_logit_alpha = alpha,
      dist_func = df, sparse_logit_func = sf\<rparr>"

definition resize_buffer :: "nat \<Rightarrow> 'v BruteforceSearch \<Rightarrow> 'v BruteforceSearch" where
  "resize_buffer new_cap s = (if new_cap < current_count s then s else s\<lparr>capacity := new_cap\<rparr>)"

definition write_row ::
  "'v option \<Rightarrow> 64 word \<Rightarrow> 32 word \<Rightarrow> 'v BruteforceSearch \<Rightarrow> 'v BruteforceSearch option" where
  \<comment> \<open>the end of \<open>add_point\<close>: \<open>ptr = data_buffer_ + (index * element_byte_size_)\<close>, the encoded
      vector if there is one, and the label\<close>
  "write_row vector label index s =
     (let row = size_t_of_index index
      in if row < capacity s
         then (let r = data_buffer s row;
                   r1 = (case vector of Some v \<Rightarrow> r\<lparr>row_vec := v\<rparr> | None \<Rightarrow> r)
               in Some (s\<lparr>data_buffer := (data_buffer s)(row := r1\<lparr>row_label := label\<rparr>)\<rparr>))
         else None)"

definition add_point ::
  "'v option \<Rightarrow> 64 word \<Rightarrow> sparse_arg \<Rightarrow> 'v BruteforceSearch
   \<Rightarrow> (vs_error + 'v BruteforceSearch) option" where
  \<comment> \<open>\<open>Some (Inl e)\<close>: the exception \<open>e\<close> leaves the function, thrown before the store is
      touched; \<open>None\<close>: an access outside the buffer\<close>
  "add_point vector label sparse_data s =
     (if sparse_index s \<noteq> None \<and> sparse_data = Sparse_bad then Some (Inl Sparse_data_conversion_failed)
      else
        let sparse_dp = (case sparse_data of Sparse_ok dp \<Rightarrow> if sparse_index s \<noteq> None then Some dp else None
                         | _ \<Rightarrow> None)
        in case label_map s label of
             Some index \<Rightarrow>
               (case (sparse_index s, sparse_dp) of
                  (Some rows, Some dp) \<Rightarrow>
                    (case SparseDataset_update (size_t_of_index index) dp rows of
                       Inl e \<Rightarrow> Some (Inl e)
                     | Inr (ret, rows') \<Rightarrow>
                         if ret \<noteq> 0 then Some (Inl Failed_to_update_sparse_data)
                         else map_option Inr (write_row vector label index (s\<lparr>sparse_index := Some rows'\<rparr>)))
                | _ \<Rightarrow> map_option Inr (write_row vector label index s))
           | None \<Rightarrow>
               (let appended =
                      (case sparse_index s of
                         None \<Rightarrow> Inr None
                       | Some rows \<Rightarrow>
                           if current_count s \<noteq> length rows then Inl Sparse_Dense_index_inconsistency
                           else (case sparse_dp of
                                   Some dp \<Rightarrow>
                                     (case SparseDataset_append dp rows of
                                        (ret, rows') \<Rightarrow> if ret \<noteq> 0 then Inl Failed_to_append_sparse_data
                                                        else Inr (Some rows'))
                                 | None \<Rightarrow>
                                     (case SparseDataset_append ([], []) rows of
                                        (ret, rows') \<Rightarrow> if ret \<noteq> 0 then Inl Failed_to_append_empty_sparse_data
                                                        else Inr (Some rows'))))
                in case appended of
                     Inl e \<Rightarrow> Some (Inl e)
                   | Inr sp \<Rightarrow>
                       let s0 = (if current_count s \<ge> capacity s
                                 then resize_buffer ((current_count s * 2 + 1) mod 2 ^ 64) s else s);
                           index = index_of_size_t (current_count s);
                           logical_offset = (ucast (next_logical_offset s) :: 32 word);
                           row = size_t_of_index index
                       in if row < capacity s0
                          then
                            let r = data_buffer s0 row;
                                s1 = s0\<lparr>sparse_index := sp,
                                        label_map := (label_map s)(label \<mapsto> index),
                                        next_logical_offset := next_logical_offset s + 1,
                                        offset_map := (offset_map s)(logical_offset \<mapsto> index),
                                        data_buffer := (data_buffer s0)(row := r\<lparr>row_offset := logical_offset\<rparr>),
                                        current_count := (current_count s + 1) mod 2 ^ 64\<rparr>
                            in map_option Inr (write_row vector label index s1)
                          else None))"

definition remove_point ::
  "64 word \<Rightarrow> 'v BruteforceSearch \<Rightarrow> (vs_error option \<times> 'v BruteforceSearch) option" where
  \<comment> \<open>the first component is the exception leaving the function, if any; the state is
      the one reached when it is thrown.  \<open>None\<close>: an access outside the buffer\<close>
  "remove_point label s =
     (case label_map s label of
        None \<Rightarrow> Some (None, s)
      | Some index \<Rightarrow>
          let idx_to_remove = size_t_of_index index;
              idx_last = (current_count s + 2 ^ 64 - 1) mod 2 ^ 64;
              s1 = s\<lparr>label_map := (label_map s)(label := None)\<rparr>
          in if \<not> idx_to_remove < capacity s1 then None
             else
               let offset_to_remove = row_offset (data_buffer s1 idx_to_remove);
                   s2 = s1\<lparr>offset_map := (offset_map s1)(offset_to_remove := None)\<rparr>;
                   moved =
                     (if current_count s2 > 0 \<and> idx_to_remove \<noteq> idx_last
                      then
                        if \<not> idx_last < capacity s2 then None
                        else
                          let s3 = s2\<lparr>data_buffer := (data_buffer s2)(idx_to_remove := data_buffer s2 idx_last)\<rparr>;
                              label_moved = row_label (data_buffer s3 idx_to_remove);
                              s4 = s3\<lparr>label_map := (label_map s3)(label_moved \<mapsto> index_of_size_t idx_to_remove)\<rparr>;
                              offset_moved = row_offset (data_buffer s4 idx_to_remove);
                              s5 = s4\<lparr>offset_map := (offset_map s4)(offset_moved \<mapsto> index_of_size_t idx_to_remove)\<rparr>
                          in (case sparse_index s5 of
                                None \<Rightarrow> Some (Inr s5)
                              | Some rows \<Rightarrow>
                                  (case SparseDataset_get_row idx_last rows of
                                     Inl e \<Rightarrow> Some (Inl (e, s5))
                                   | Inr last_row \<Rightarrow>
                                       (case SparseDataset_update idx_to_remove last_row rows of
                                          Inl e \<Rightarrow> Some (Inl (e, s5))
                                        | Inr (ret, rows') \<Rightarrow> Some (Inr (s5\<lparr>sparse_index := Some rows'\<rparr>)))))
                      else Some (Inr s2))
               in case moved of
                    None \<Rightarrow> None
                  | Some (Inl (e, s')) \<Rightarrow> Some (Some e, s')
                  | Some (Inr s6) \<Rightarrow>
                      let s7 = (case sparse_index s6 of
                                  None \<Rightarrow> s6
                                | Some rows \<Rightarrow> s6\<lparr>sparse_index := Some (snd (SparseDataset_pop_back rows))\<rparr>)
                      in Some (None, s7\<lparr>current_count := (current_count s7 + 2 ^ 64 - 1) mod 2 ^ 64\<rparr>))"

definition get_data_num :: "'v BruteforceSearch \<Rightarrow> nat" where
  "get_data_num s = current_count s"



datatype 'v vs_op = Add_point "'v option" "64 word" sparse_arg | Remove_point "64 word"

fun vs_step :: "'v vs_op \<Rightarrow> 'v BruteforceSearch \<Rightarrow> 'v BruteforceSearch option" where
  \<comment> \<open>one call on the store; an exception of \<open>add_point\<close> is thrown before the store is
      touched, so the store is then left as it was\<close>
  "vs_step (Add_point v l sp) s =
     (case add_point v l sp s of None \<Rightarrow> None | Some (Inl e) \<Rightarrow> Some s | Some (Inr s') \<Rightarrow> Some s')"
| "vs_step (Remove_point l) s = map_option snd (remove_point l s)"

fun vs_run :: "'v vs_op list \<Rightarrow> 'v BruteforceSearch \<Rightarrow> 'v BruteforceSearch option" where
  \<comment> \<open>a sequence of calls; \<open>None\<close> as soon as one of them is undefined\<close>
  "vs_run [] s = Some s"
| "vs_run (x # ops) s = (case vs_step x s of None \<Rightarrow> None | Some s' \<Rightarrow> vs_run ops s')"


section \<open>DirIndex (dir_index.h, dir_index.cpp)\<close>

text \<open>
  The trie over path segments.  A node is its leaf flag and its children keyed by
  segment (the \<open>unordered_map\<close> \<open>children_\<close>, as an association list in iteration order);
  the parent pointer and the copy of the segment inside the node are not represented.
  The result set of key strings, an \<open>unordered_set\<close>, is a duplicate-free list.
\<close>

datatype TrieNode = TrieNode (is_leaf: bool) (children: "(string \<times> TrieNode) list")

fun split_tokens :: "char \<Rightarrow> string \<Rightarrow> string \<Rightarrow> string list" where
  \<comment> \<open>the non-empty pieces between occurrences of the delimiter; \<open>seg\<close> is the piece read
      so far.  This is the \<open>getline\<close> loop of \<open>split_path\<close>, which drops empty segments,
      and \<open>split\<close> of string_utils.h with a single delimiter.\<close>
  "split_tokens d seg [] = (if seg \<noteq> [] then [seg] else [])"
| "split_tokens d seg (c # cs) =
     (if c = d then (if seg \<noteq> [] then seg # split_tokens d [] cs else split_tokens d [] cs)
      else split_tokens d (seg @ [c]) cs)"

definition split_path :: "string \<Rightarrow> string list" where
  "split_path path =
     (if path = [] \<or> path = ''/'' then []
      else split_tokens (CHR ''/'') [] (if hd path = CHR ''/'' then tl path else path))"

fun add_segments :: "string list \<Rightarrow> TrieNode \<Rightarrow> TrieNode" where
  "add_segments [] node = TrieNode True (children node)"
| "add_segments (segment # rest) node =
     (case map_of (children node) segment of
        None \<Rightarrow> TrieNode (is_leaf node)
                  (children node @ [(segment, add_segments rest (TrieNode False []))])
      | Some child \<Rightarrow> TrieNode (is_leaf node)
                  (map (\<lambda>(k, c). if k = segment then (k, add_segments rest c) else (k, c))
                       (children node)))"

definition add_key :: "string \<Rightarrow> TrieNode \<Rightarrow> TrieNode" where
  "add_key key rt = add_segments (split_path key) rt"

fun find_segments :: "string list \<Rightarrow> TrieNode \<Rightarrow> TrieNode option" where
  "find_segments [] node = Some node"
| "find_segments (seg # rest) node =
     (case map_of (children node) seg of
        None \<Rightarrow> None
      | Some child \<Rightarrow> find_segments rest child)"

definition find_node :: "TrieNode \<Rightarrow> string \<Rightarrow> TrieNode option" where
  "find_node rt path =
     (if path = [] \<or> path = ''/'' then Some rt else find_segments (split_path path) rt)"

definition set_insert :: "string \<Rightarrow> string list \<Rightarrow> string list" where
  "set_insert k ks = (if k \<in> set ks then ks else ks @ [k])"

function collect_bitmaps_recursive_optimized ::
  "TrieNode \<Rightarrow> int \<Rightarrow> int \<Rightarrow> string list \<Rightarrow> string \<Rightarrow> string list" where
  "collect_bitmaps_recursive_optimized node current_depth max_depth bitmaps path_buffer =
     (let bitmaps1 =
            (if is_leaf node
             then (if path_buffer = [] \<or> path_buffer = ''/'' then set_insert ''/'' bitmaps
                   else set_insert path_buffer bitmaps)
             else bitmaps)
      in if max_depth \<noteq> -1 \<and> current_depth \<ge> max_depth then bitmaps1
         else fold (\<lambda>child_pair acc.
                      collect_bitmaps_recursive_optimized (snd child_pair) (current_depth + 1) max_depth acc
                        (if path_buffer = [] \<or> path_buffer = ''/'' then ''/'' @ fst child_pair
                         else path_buffer @ ''/'' @ fst child_pair))
                   (children node) bitmaps1)"
  by pat_completeness auto
termination
proof (relation "measure (\<lambda>(node, d, m, b, p). size node)")
  show "wf (measure (\<lambda>(node, d, m, b, p). size node))" by simp
next
  fix node :: TrieNode and current_depth max_depth :: int and bitmaps x :: "string list"
    and path_buffer :: string and xa :: "string \<times> TrieNode" and xb :: "string list"
  assume a: "xa \<in> set (children node)"
  obtain k c where xa: "xa = (k, c)" by (cases xa)
  have "size c < size node"
    using a unfolding xa by (cases node) (auto dest!: split_list)
  then have "size (snd xa) < size node" by (simp add: xa)
  then show "((snd xa, current_depth + 1, max_depth, xb,
                if path_buffer = [] \<or> path_buffer = ''/'' then ''/'' @ fst xa
                else path_buffer @ ''/'' @ fst xa),
               node, current_depth, max_depth, bitmaps, path_buffer)
              \<in> measure (\<lambda>(node, d, m, b, p). size node)"
    by simp
qed

fun strip_trailing_slashes :: "string \<Rightarrow> string" where
  \<comment> \<open>\<open>while (path_buffer.size() > 1 && path_buffer.back() == '/') path_buffer.pop_back()\<close>\<close>
  "strip_trailing_slashes p =
     (if length p > 1 \<and> last p = CHR ''/'' then strip_trailing_slashes (butlast p) else p)"

definition get_merged_bitmap :: "TrieNode \<Rightarrow> string \<Rightarrow> int \<Rightarrow> string list \<Rightarrow> string list" where
  "get_merged_bitmap rt path_prefix depth unique_bitmaps =
     (case find_node rt path_prefix of
        None \<Rightarrow> unique_bitmaps
      | Some start_node \<Rightarrow>
          let path_buffer0 = (if path_prefix \<noteq> [] \<and> hd path_prefix \<noteq> CHR ''/''
                              then CHR ''/'' # path_prefix else path_prefix);
              path_buffer = strip_trailing_slashes path_buffer0
          in collect_bitmaps_recursive_optimized start_node 0 depth unique_bitmaps path_buffer)"

section \<open>FieldBitmapGroup and FieldBitmapGroupSet (bitmap_field_group.h, bitmap_field_group.cpp)\<close>

text \<open>
  A field group owns the bitmaps of one field keyed by the string form of the value, and
  optionally a \<open>RangedMap\<close> and a \<open>DirIndex\<close>.  The group set maps field names to
  groups.  Every function that the source declares on a group or on the set takes the
  object as its last argument and returns it next to its result, because the lookups
  may write.  A returned \<open>Bitmap*\<close> or \<open>BitmapPtr\<close> is \<open>None\<close> when null.
\<close>

record FieldBitmapGroup =
  group_name :: string
  bitmap_group :: "string \<rightharpoonup> Bitmap"
  rangedmap_ptr :: "RangedMap option"
  dir_index :: "TrieNode option"
  type_id :: int
  fg_element_size :: nat

definition kBitmapGroupUnknown :: int where "kBitmapGroupUnknown = 0"
definition kBitmapGroupBitmaps :: int where "kBitmapGroupBitmaps = 1"
definition kBitmapGroupRangedMap :: int where "kBitmapGroupRangedMap = 2"
definition kBitmapGroupBothBitmapsAndRange :: int where "kBitmapGroupBothBitmapsAndRange = 3"
definition kBitmapGroupDir :: int where "kBitmapGroupDir = 4"

definition FieldBitmapGroup_init :: "string \<Rightarrow> int \<Rightarrow> FieldBitmapGroup" where
  "FieldBitmapGroup_init field_name tid =
     \<lparr>group_name = field_name, bitmap_group = Map.empty,
      rangedmap_ptr = (if tid = kBitmapGroupBothBitmapsAndRange \<or> tid = kBitmapGroupRangedMap
                       then Some RangedMap_init else None),
      dir_index = (if tid = kBitmapGroupDir then Some (TrieNode False []) else None),
      type_id = tid, fg_element_size = 0\<rparr>"

definition get_type_id :: "FieldBitmapGroup \<Rightarrow> int" where
  "get_type_id g =
     (if type_id g \<noteq> kBitmapGroupUnknown then type_id g
      else if dir_index g \<noteq> None then kBitmapGroupDir
      else if bitmap_group g \<noteq> Map.empty \<and> rangedmap_ptr g \<noteq> None then kBitmapGroupBothBitmapsAndRange
      else if bitmap_group g \<noteq> Map.empty then kBitmapGroupBitmaps
      else if rangedmap_ptr g \<noteq> None then kBitmapGroupRangedMap
      else kBitmapGroupUnknown)"

definition exist_bitmap :: "string \<Rightarrow> FieldBitmapGroup \<Rightarrow> bool" where
  "exist_bitmap key g = (bitmap_group g key \<noteq> None)"

definition get_editable_bitmap :: "string \<Rightarrow> FieldBitmapGroup \<Rightarrow> Bitmap \<times> FieldBitmapGroup" where
  \<comment> \<open>a missing key is inserted with a fresh bitmap; the pointer returned is never null\<close>
  "get_editable_bitmap key g =
     (case bitmap_group g key of
        Some b \<Rightarrow> (b, g)
      | None \<Rightarrow> (Bitmap_init, g\<lparr>bitmap_group := (bitmap_group g)(key \<mapsto> Bitmap_init)\<rparr>))"

definition get_bitmap :: "string \<Rightarrow> FieldBitmapGroup \<Rightarrow> Bitmap \<times> FieldBitmapGroup" where
  "get_bitmap key g = get_editable_bitmap key g"

definition get_bitmap_copy :: "string \<Rightarrow> FieldBitmapGroup \<Rightarrow> Bitmap option \<times> FieldBitmapGroup" where
  "get_bitmap_copy key g =
     (case get_bitmap key g of
        (temp, g1) \<Rightarrow> (Some (Bitmap_copy_p (Some temp) Bitmap_init), g1))"

definition normalize_path_key :: "string \<Rightarrow> string" where
  "normalize_path_key key = (if key = [] \<or> hd key = CHR ''/'' then key else CHR ''/'' # key)"

definition size_t_of_int :: "int \<Rightarrow> nat" where
  \<comment> \<open>\<open>static_cast<size_t>\<close> of an \<open>int\<close>\<close>
  "size_t_of_int i = nat (i mod 2 ^ 64)"

definition add_key_offset :: "int \<Rightarrow> string \<Rightarrow> FieldBitmapGroup \<Rightarrow> FieldBitmapGroup" where
  \<comment> \<open>the body shared by both branches of \<open>add_field_data(const std::string&, int)\<close> for one key\<close>
  "add_key_offset offset key_i g =
     (let norm_key = (if dir_index g \<noteq> None then normalize_path_key key_i else key_i);
          g1 = (if \<not> exist_bitmap norm_key g
                then (case dir_index g of Some d \<Rightarrow> g\<lparr>dir_index := Some (add_key norm_key d)\<rparr>
                      | None \<Rightarrow> g)
                else g)
      in case get_editable_bitmap norm_key g1 of
           (temp, g2) \<Rightarrow>
             g2\<lparr>bitmap_group := (bitmap_group g2)(norm_key \<mapsto> Bitmap_Set (word_of_int offset) temp)\<rparr>)"

definition FieldBitmapGroup_add_field_data :: "string \<Rightarrow> int \<Rightarrow> FieldBitmapGroup \<Rightarrow> int \<times> FieldBitmapGroup" where
  "FieldBitmapGroup_add_field_data field_str offset g =
     (let g1 = (if CHR '';'' \<in> set field_str
                then fold (add_key_offset offset) (split_tokens (CHR '';'') [] field_str) g
                else add_key_offset offset field_str g)
      in (0, g1\<lparr>fg_element_size := max (size_t_of_int (offset + 1)) (fg_element_size g1)\<rparr>))"

record FieldBitmapGroupSet =
  fs_element_size :: nat
  field_names :: "string set"
  range_field_names :: "string set"
  enum_field_names :: "string set"
  path_field_names :: "string set"
  field_bitmap_groups_map :: "string \<rightharpoonup> FieldBitmapGroup"

definition FieldBitmapGroupSet_init :: FieldBitmapGroupSet where
  "FieldBitmapGroupSet_init =
     \<lparr>fs_element_size = 0, field_names = {}, range_field_names = {}, enum_field_names = {},
      path_field_names = {}, field_bitmap_groups_map = Map.empty\<rparr>"

definition add_field_group :: "FieldBitmapGroup \<Rightarrow> FieldBitmapGroupSet \<Rightarrow> int \<times> FieldBitmapGroupSet" where
  "add_field_group g fs =
     (let field_name = group_name g
      in if field_bitmap_groups_map fs field_name \<noteq> None then (-2, fs)
         else (0, fs\<lparr>
                field_bitmap_groups_map := (field_bitmap_groups_map fs)(field_name \<mapsto> g),
                field_names := insert field_name (field_names fs),
                range_field_names :=
                  (if get_type_id g = kBitmapGroupRangedMap \<or> get_type_id g = kBitmapGroupBothBitmapsAndRange
                   then insert field_name (range_field_names fs) else range_field_names fs),
                enum_field_names :=
                  (if get_type_id g = kBitmapGroupBitmaps \<or> get_type_id g = kBitmapGroupBothBitmapsAndRange
                   then insert field_name (enum_field_names fs) else enum_field_names fs),
                path_field_names :=
                  (if get_type_id g = kBitmapGroupDir
                   then insert field_name (path_field_names fs) else path_field_names fs)\<rparr>))"

fun add_str_fields :: "(string \<times> string) list \<Rightarrow> int \<Rightarrow> FieldBitmapGroupSet \<Rightarrow> int \<Rightarrow> int \<times> FieldBitmapGroupSet" where
  \<comment> \<open>the loop of \<open>add_field_data\<close> over the entries of \<open>str_kv_map\<close>\<close>
  "add_str_fields [] offset fs ret = (ret, fs)"
| "add_str_fields ((name, val) # rest) offset fs ret =
     (if name \<notin> field_names fs then add_str_fields rest offset fs ret
      else case field_bitmap_groups_map fs name of
             None \<Rightarrow> add_str_fields rest offset fs ret
           | Some g \<Rightarrow>
               (case FieldBitmapGroup_add_field_data val offset g of
                  (ret1, g1) \<Rightarrow>
                    let fs1 = fs\<lparr>field_bitmap_groups_map := (field_bitmap_groups_map fs)(name \<mapsto> g1)\<rparr>
                    in if ret1 \<noteq> 0 then (ret1, fs1) else add_str_fields rest offset fs1 ret1))"

definition FieldBitmapGroupSet_add_field_data ::
  "(string \<times> string) list \<Rightarrow> int \<Rightarrow> FieldBitmapGroupSet \<Rightarrow> int \<times> FieldBitmapGroupSet" where
  "FieldBitmapGroupSet_add_field_data str_kv_map offset fs =
     (case add_str_fields str_kv_map offset fs 0 of
        (ret, fs1) \<Rightarrow> (ret, fs1\<lparr>fs_element_size := max (fs_element_size fs1) (size_t_of_int (offset + 1))\<rparr>))"

definition FieldBitmapGroupSet_get_bitmap ::
  "string \<Rightarrow> string \<Rightarrow> FieldBitmapGroupSet \<Rightarrow> Bitmap option \<times> FieldBitmapGroupSet" where
  \<comment> \<open>\<open>get_bitmap(field, key)\<close>, which forwards to \<open>get_editable_bitmap(field, key)\<close>\<close>
  "FieldBitmapGroupSet_get_bitmap field key fs =
     (case field_bitmap_groups_map fs field of
        None \<Rightarrow> (None, fs)
      | Some g \<Rightarrow>
          (case get_editable_bitmap key g of
             (b, g1) \<Rightarrow> (Some b, fs\<lparr>field_bitmap_groups_map := (field_bitmap_groups_map fs)(field \<mapsto> g1)\<rparr>)))"

definition is_path_field_name :: "FieldBitmapGroupSet \<Rightarrow> string \<Rightarrow> bool" where
  "is_path_field_name fs field_name = (field_name \<in> path_field_names fs)"

definition make_full_temp :: "FieldBitmapGroupSet \<Rightarrow> Bitmap" where
  \<comment> \<open>\<open>SetRange\<close> takes \<open>uint32_t\<close> bounds; \<open>element_size_\<close> is a \<open>size_t\<close>\<close>
  "make_full_temp fs = Bitmap_SetRange 0 (of_nat (fs_element_size fs)) Bitmap_init"

definition make_field_copy_key ::
  "string \<Rightarrow> string \<Rightarrow> FieldBitmapGroupSet \<Rightarrow> Bitmap option \<times> FieldBitmapGroupSet" where
  \<comment> \<open>the overload \<open>make_field_copy(field, key)\<close> for one key\<close>
  "make_field_copy_key field key fs =
     (case field_bitmap_groups_map fs field of
        None \<Rightarrow> (None, fs)
      | Some g \<Rightarrow>
          (case get_bitmap_copy key g of
             (b, g1) \<Rightarrow> (b, fs\<lparr>field_bitmap_groups_map := (field_bitmap_groups_map fs)(field \<mapsto> g1)\<rparr>)))"

fun collect_to_unions ::
  "string \<Rightarrow> string list \<Rightarrow> Bitmap list \<Rightarrow> FieldBitmapGroupSet \<Rightarrow> Bitmap list \<times> FieldBitmapGroupSet" where
  \<comment> \<open>the loop of \<open>make_field_copy(field, keys)\<close> that gathers the bitmaps to union\<close>
  "collect_to_unions field [] to_unions fs = (to_unions, fs)"
| "collect_to_unions field (key # rest) to_unions fs =
     (case FieldBitmapGroupSet_get_bitmap field key fs of
        (None, fs1) \<Rightarrow> collect_to_unions field rest to_unions fs1
      | (Some temp_i, fs1) \<Rightarrow> collect_to_unions field rest (to_unions @ [temp_i]) fs1)"

definition make_field_copy ::
  "string \<Rightarrow> string list \<Rightarrow> FieldBitmapGroupSet \<Rightarrow> Bitmap option \<times> FieldBitmapGroupSet" where
  "make_field_copy field keys fs =
     (if length keys = 1 then make_field_copy_key field (keys ! 0) fs
      else if length keys > 1
      then (case collect_to_unions field keys [] fs of
              (to_unions, fs1) \<Rightarrow>
                (Some (if length to_unions > 0 then Bitmap_FastUnion to_unions Bitmap_init else Bitmap_init),
                 fs1))
      else (None, fs))"

fun collect_group_bitmaps ::
  "string list \<Rightarrow> Bitmap list \<Rightarrow> FieldBitmapGroup \<Rightarrow> Bitmap list \<times> FieldBitmapGroup" where
  \<comment> \<open>the loop of \<open>make_path_field_copy\<close> over \<open>all_unique_bitmaps\<close>\<close>
  "collect_group_bitmaps [] bitmaps_to_union g = (bitmaps_to_union, g)"
| "collect_group_bitmaps (bitmap_key # rest) bitmaps_to_union g =
     (case get_bitmap bitmap_key g of
        (bm, g1) \<Rightarrow> collect_group_bitmaps rest (bitmaps_to_union @ [bm]) g1)"

definition make_path_field_copy ::
  "string \<Rightarrow> string list \<Rightarrow> int \<Rightarrow> FieldBitmapGroupSet \<Rightarrow> Bitmap option \<times> FieldBitmapGroupSet" where
  "make_path_field_copy field keys depth fs =
     (case field_bitmap_groups_map fs field of
        None \<Rightarrow> (None, fs)
      | Some g \<Rightarrow>
          if depth = -1 \<and> list_ex (\<lambda>path_prefix. path_prefix = ''/'' \<or> path_prefix = []) keys
          then (Some (make_full_temp fs), fs)
          else (case dir_index g of
                  None \<Rightarrow> (None, fs)
                | Some dip \<Rightarrow>
                    let all_unique_bitmaps =
                          fold (\<lambda>path_prefix acc. fold set_insert (get_merged_bitmap dip path_prefix depth []) acc)
                               keys []
                    in (case collect_group_bitmaps all_unique_bitmaps [] g of
                          (bitmaps_to_union, g1) \<Rightarrow>
                            (Some (if bitmaps_to_union \<noteq> []
                                   then Bitmap_FastUnion bitmaps_to_union Bitmap_init else Bitmap_init),
                             fs\<lparr>field_bitmap_groups_map := (field_bitmap_groups_map fs)(field \<mapsto> g1)\<rparr>))))"

definition make_path_field_exclude_copy ::
  "string \<Rightarrow> string list \<Rightarrow> int \<Rightarrow> FieldBitmapGroupSet \<Rightarrow> Bitmap option \<times> FieldBitmapGroupSet" where
  "make_path_field_exclude_copy field keys depth fs =
     (let pres = make_full_temp fs
      in case make_path_field_copy field keys depth fs of
           (b, fs1) \<Rightarrow> (Some (Bitmap_Exclude_p b pres), fs1))"

definition make_field_exclude_copy ::
  "string \<Rightarrow> string list \<Rightarrow> FieldBitmapGroupSet \<Rightarrow> Bitmap option \<times> FieldBitmapGroupSet" where
  "make_field_exclude_copy field keys fs =
     (let pres = make_full_temp fs
      in if length keys \<le> 0 then (Some pres, fs)
         else if length keys = 1
         then (case FieldBitmapGroupSet_get_bitmap field (keys ! 0) fs of
                 (temp_p, fs1) \<Rightarrow> (Some (Bitmap_Exclude_p temp_p pres), fs1))
         else (case make_field_copy field keys fs of
                 (temp, fs1) \<Rightarrow> (Some (Bitmap_Exclude_p temp pres), fs1)))"

section \<open>The filter operators must and must_not (filter_ops.cpp)\<close>

text \<open>
  A parsed field operator: \<open>op_field\<close> is \<open>fields_[0]\<close> (the parser rejects an operator
  without a field), \<open>op_type_conds\<close> the keys \<open>type_conds_\<close>, \<open>op_depth\<close> the value \<open>depth_\<close> parsed from \<open>para\<close>.
  \<open>calc_bitmap\<close> receives the running result \<open>pres\<close> and the name of the enclosing
  logical operator.
\<close>

record FieldOp =
  op_field :: string
  op_type_conds :: "string list"
  op_depth :: int

definition MustOp_calc_self_bitmap :: "FieldOp \<Rightarrow> FieldBitmapGroupSet \<Rightarrow> Bitmap option \<times> FieldBitmapGroupSet" where
  "MustOp_calc_self_bitmap op fs =
     (if is_path_field_name fs (op_field op)
      then make_path_field_copy (op_field op) (op_type_conds op) (op_depth op) fs
      else make_field_copy (op_field op) (op_type_conds op) fs)"

definition MustOp_calc_bitmap ::
  "FieldOp \<Rightarrow> FieldBitmapGroupSet \<Rightarrow> Bitmap option \<Rightarrow> string \<Rightarrow> Bitmap option \<times> FieldBitmapGroupSet" where
  "MustOp_calc_bitmap op fs pres on_res_op =
     (if length (op_type_conds op) \<le> 0 then (None, fs)
      else case pres of
             None \<Rightarrow> MustOp_calc_self_bitmap op fs
           | Some p \<Rightarrow>
               if on_res_op = ''and''
               then (case MustOp_calc_self_bitmap op fs of
                       (None, fs1) \<Rightarrow> (None, fs1)
                     | (Some temp, fs1) \<Rightarrow> (Some (Bitmap_Intersect_p (Some temp) p), fs1))
               else if on_res_op = ''or''
               then (case MustOp_calc_self_bitmap op fs of
                       (None, fs1) \<Rightarrow> (Some p, fs1)
                     | (Some temp, fs1) \<Rightarrow> (Some (Bitmap_Union_p (Some temp) p), fs1))
               else (None, fs))"

definition MustNotOp_calc_self_bitmap :: "FieldOp \<Rightarrow> FieldBitmapGroupSet \<Rightarrow> Bitmap option \<times> FieldBitmapGroupSet" where
  "MustNotOp_calc_self_bitmap op fs =
     (if is_path_field_name fs (op_field op)
      then make_path_field_exclude_copy (op_field op) (op_type_conds op) (op_depth op) fs
      else make_field_exclude_copy (op_field op) (op_type_conds op) fs)"

definition MustNotOp_calc_bitmap ::
  "FieldOp \<Rightarrow> FieldBitmapGroupSet \<Rightarrow> Bitmap option \<Rightarrow> string \<Rightarrow> Bitmap option \<times> FieldBitmapGroupSet" where
  "MustNotOp_calc_bitmap op fs pres on_res_op =
     (case pres of
        None \<Rightarrow> MustNotOp_calc_self_bitmap op fs
      | Some p \<Rightarrow>
          if on_res_op = ''and''
          then (if length (op_type_conds op) = 1
                then (case FieldBitmapGroupSet_get_bitmap (op_field op) (op_type_conds op ! 0) fs of
                        (temp_p, fs1) \<Rightarrow> (Some (Bitmap_Exclude_p temp_p p), fs1))
                else if length (op_type_conds op) > 1
                then (case make_field_copy (op_field op) (op_type_conds op) fs of
                        (temp, fs1) \<Rightarrow> (Some (Bitmap_Exclude_p temp p), fs1))
                else (Some p, fs))
          else if on_res_op = ''or''
          then (case MustNotOp_calc_self_bitmap op fs of
                  (temp, fs1) \<Rightarrow> (Some (Bitmap_Union_p temp p), fs1))
          else (None, fs))"

section \<open>Index manager state query (index_manager_impl.cpp, index_engine.cpp)\<close>

text \<open>
  \<open>StateResult\<close> (common_structs.h) with its member initialisers, the part of the manager
  that \<open>get_state\<close> reads, and the two layers of the call: \<open>IndexManagerImpl::get_state\<close>
  fills the result passed by reference, \<open>IndexEngine::get_state\<close> passes a fresh one.
\<close>

record StateResult =
  sr_update_timestamp :: "64 word"
  sr_element_count :: "64 word"

definition StateResult_init :: StateResult where
  "StateResult_init = \<lparr>sr_update_timestamp = 0, sr_element_count = 0\<rparr>"

record 'v IndexManagerImpl =
  meta_update_timestamp :: "64 word"
  vector_index :: "'v BruteforceSearch"

definition IndexManagerImpl_get_state :: "'v IndexManagerImpl \<Rightarrow> StateResult \<Rightarrow> int \<times> StateResult" where
  "IndexManagerImpl_get_state m state_result =
     (0, state_result\<lparr>sr_update_timestamp := meta_update_timestamp m\<rparr>)"

definition IndexEngine_get_state :: "'v IndexManagerImpl \<Rightarrow> StateResult" where
  "IndexEngine_get_state impl = snd (IndexManagerImpl_get_state impl StateResult_init)"

section \<open>Concrete states used by the examples\<close>


definition stale_a :: Bitmap where
  "stale_a = snd (get_cached_nbit (Bitmap_SetMany [0, 1] Bitmap_init))"

definition stale_b :: Bitmap where
  "stale_b = Bitmap_SetMany [0] Bitmap_init"


text \<open>
  A store without sparse head, of initial capacity 1, whose rows carry no vector data, a short run on it, and the
  run that allocates \<open>2 ^ 32 + 1\<close> logical offsets: label 0 is added once and stays,
  label 1 is added and removed \<open>2 ^ 32 - 1\<close> times and then added once more.
\<close>

definition wrap_store :: "unit BruteforceSearch" where
  "wrap_store = BruteforceSearch_init (\<lambda>i. \<lparr>row_vec = (), row_label = 0, row_offset = 0\<rparr>)
                  1 False False 0 (\<lambda>a b. 0) (\<lambda>rows x i. 0)"



text \<open>An index manager holding one record, last updated at time 1700000000.\<close>

definition one_record_store :: "unit BruteforceSearch" where
  "one_record_store =
     (case vs_run [Add_point None 5 Sparse_null] wrap_store of Some s \<Rightarrow> s | None \<Rightarrow> wrap_store)"

definition one_record_manager :: "unit IndexManagerImpl" where
  "one_record_manager =
     \<lparr>meta_update_timestamp = 1700000000, vector_index = one_record_store\<rparr>"

text \<open>
  A field set with the enum field \<open>title\<close> and the path field \<open>dir\<close>, holding record 0
  with title \<open>apple\<close> under \<open>/a/b\<close> and record 1 with title \<open>banana\<close> under \<open>/a\<close>.
\<close>

definition title_fs :: FieldBitmapGroupSet where
  "title_fs =
     snd (FieldBitmapGroupSet_add_field_data [(''title'', ''banana''), (''dir'', ''/a'')] 1
       (snd (FieldBitmapGroupSet_add_field_data [(''title'', ''apple''), (''dir'', ''/a/b'')] 0
         (snd (add_field_group (FieldBitmapGroup_init ''dir'' kBitmapGroupDir)
           (snd (add_field_group (FieldBitmapGroup_init ''title'' kBitmapGroupBitmaps)
             FieldBitmapGroupSet_init)))))))"

definition stored_bitmap :: "FieldBitmapGroupSet \<Rightarrow> string \<Rightarrow> string \<rightharpoonup> Bitmap" where
  \<comment> \<open>the entry of the bitmap map of a field at a key, read without any lookup function\<close>
  "stored_bitmap fs field key =
     (case field_bitmap_groups_map fs field of None \<Rightarrow> None | Some g \<Rightarrow> bitmap_group g key)"

definition cherry_op :: FieldOp where
  "cherry_op = \<lparr>op_field = ''title'', op_type_conds = [''cherry''], op_depth = -1\<rparr>"

definition bits_of :: "Bitmap option \<Rightarrow> 32 word set" where
  \<comment> \<open>the set denoted by a nullable bitmap pointer; null matches nothing\<close>
  "bits_of p = (case p of None \<Rightarrow> {} | Some b \<Rightarrow> bits b)"

text \<open>
  Ranged maps built by \<open>add_offset_and_score\<close>: the values 1 to 5 at the offsets 0 to 4
  with the slot size variable set to 2, so that the fifth insertion splits the slot;
  and two one-element maps for a point at \<open>(1, 2)\<close>.
\<close>

definition add_all :: "nat \<Rightarrow> (32 word \<times> real) list \<Rightarrow> RangedMap \<Rightarrow> RangedMap" where
  "add_all slot_size pairs rm =
     fold (\<lambda>(offset, v) m. case add_offset_and_score slot_size offset v m of
                              Some (ret, m') \<Rightarrow> m' | None \<Rightarrow> m) pairs rm"

definition five_map :: RangedMap where
  "five_map = add_all 2 [(0, 1), (1, 2), (2, 3), (3, 4), (4, 5)] RangedMap_init"

definition point_map :: RangedMap2D where
  "point_map = \<lparr>x_map = add_all kRangedMapSlotSize [(0, 1)] RangedMap_init,
                 y_map = add_all kRangedMapSlotSize [(0, 2)] RangedMap_init\<rparr>"

section \<open>Invariants used in the proofs\<close>




section \<open>Cached cardinality\<close>

lemma fold_insert_set: "fold insert xs A = set xs \<union> A"
  by (induction xs arbitrary: A) auto

text \<open>
  C7.  The claim is that every mutation invalidates the cached cardinality, so that
  \<open>get_cached_nbit\<close> always agrees with \<open>nbit\<close>.  \<open>Exclude\<close> on two roaring bitmaps
  returns early and keeps the cache: after caching the cardinality 2 of the bitmap
  holding 0 and 1 and excluding the bitmap holding 0, the cached answer is still 2
  while one id is left.
\<close>

theorem Exclude_keeps_stale_cache:
  "fst (get_cached_nbit (Bitmap_Exclude stale_b stale_a)) = 2
   \<and> nbit (Bitmap_Exclude stale_b stale_a) = 1
   \<and> bm_has_nbit_cache (Bitmap_Exclude stale_b stale_a)"
  by (simp add: stale_a_def stale_b_def get_cached_nbit_def Bitmap_Exclude_def
      Bitmap_SetMany_def Bitmap_init_def to_roaring_def nbit_def fold_insert_set Let_def)

section \<open>Vector store: label and offset bookkeeping\<close>




































section \<open>Index manager: get_state\<close>

text \<open>
  C8.  The claim is that \<open>get_state\<close> returns the update timestamp and the current
  element count.  The function assigns only the timestamp; on an index that holds one
  record the returned \<open>element_count\<close> is the default 0 of a fresh \<open>StateResult\<close>.
\<close>

theorem get_state_leaves_element_count:
  "sr_element_count (IndexEngine_get_state one_record_manager) = 0
   \<and> get_data_num (vector_index one_record_manager) = 1
   \<and> sr_update_timestamp (IndexEngine_get_state one_record_manager) = 1700000000"
  by (simp add: IndexEngine_get_state_def IndexManagerImpl_get_state_def StateResult_init_def
      one_record_manager_def one_record_store_def get_data_num_def wrap_store_def
      BruteforceSearch_init_def add_point_def write_row_def resize_buffer_def
      index_of_size_t_def size_t_of_index_def Let_def)
section \<open>Field set: must and must_not\<close>

lemmas fs_eval = FieldBitmapGroupSet_add_field_data_def FieldBitmapGroup_add_field_data_def
  add_field_group_def FieldBitmapGroup_init_def FieldBitmapGroupSet_init_def get_type_id_def
  add_key_offset_def exist_bitmap_def get_editable_bitmap_def normalize_path_key_def
  kBitmapGroupBitmaps_def kBitmapGroupDir_def kBitmapGroupUnknown_def kBitmapGroupRangedMap_def
  kBitmapGroupBothBitmapsAndRange_def size_t_of_int_def Let_def

lemma title_fs_title:
  "field_bitmap_groups_map title_fs ''title'' =
     Some \<lparr>group_name = ''title'',
           bitmap_group = [''apple'' \<mapsto> Bitmap_Set 0 Bitmap_init, ''banana'' \<mapsto> Bitmap_Set 1 Bitmap_init],
           rangedmap_ptr = None, dir_index = None, type_id = 1, fg_element_size = 2\<rparr>"
  by (simp add: title_fs_def fs_eval)

lemma title_fs_misc:
  "fs_element_size title_fs = 2" "path_field_names title_fs = {''dir''}"
  by (simp_all add: title_fs_def fs_eval)

lemma bits_alt: "bits b = (if bm_is_roaring b then bm_roaring b else bm_set b)"
  by (auto simp: bits_def Bitmap_Isset_def)

lemma bits_Unset [simp]: "bits (Bitmap_Unset i b) = bits b - {i}"
  by (auto simp: bits_alt Bitmap_Unset_def Let_def)

lemma Unset_is_roaring [simp]: "bm_is_roaring (Bitmap_Unset i b) = bm_is_roaring b"
  by (simp add: Bitmap_Unset_def Let_def)

lemma bits_fold_Unset: "bits (fold Bitmap_Unset xs b) = bits b - set xs"
  by (induction xs arbitrary: b) auto

lemma bits_cache [simp]: "bits (b\<lparr>bm_has_nbit_cache := c\<rparr>) = bits b"
  by (simp add: bits_alt)

lemma bits_Exclude: "bits (Bitmap_Exclude other b) = bits b - bits other"
  by (auto simp: Bitmap_Exclude_def Let_def bits_fold_Unset)
     (auto simp: bits_alt Bitmap_Isset_def)

lemma bits_Exclude_p: "bits (Bitmap_Exclude_p p b) = bits b - bits_of p"
  by (cases p) (simp_all add: Bitmap_Exclude_p_def bits_of_def bits_Exclude)

lemma bits_copy_p: "bits (Bitmap_copy_p (Some t) b) = bits t"
  by (simp add: Bitmap_copy_p_def Bitmap_copy_def bits_alt)

lemma bits_full: "bits (make_full_temp fs) = {0 ..< of_nat (fs_element_size fs)}"
  by (simp add: make_full_temp_def Bitmap_SetRange_def Bitmap_init_def to_roaring_def bits_alt Let_def)

text \<open>
  C5.  For every field set with \<open>element_size_ > 0\<close>, every field \<open>F\<close> and every non-empty
  key list \<open>C\<close>, the bitmap of the \<open>must_not\<close> operator is the full bitmap of the offsets
  below \<open>element_size_\<close> minus the bitmap of the \<open>must\<close> operator on the same field and
  keys (a null result of \<open>must\<close> matching nothing).
\<close>

theorem must_not_is_complement:
  assumes "0 < fs_element_size fs" and "C \<noteq> []"
  shows "bits_of (fst (MustNotOp_calc_bitmap \<lparr>op_field = F, op_type_conds = C, op_depth = d\<rparr> fs None on_res_op))
         = {0 ..< of_nat (fs_element_size fs)}
           - bits_of (fst (MustOp_calc_bitmap \<lparr>op_field = F, op_type_conds = C, op_depth = d\<rparr> fs None on_res_op))"
proof (cases "is_path_field_name fs F")
  case True
  then show ?thesis using assms(2)
    by (simp add: MustNotOp_calc_bitmap_def MustOp_calc_bitmap_def MustNotOp_calc_self_bitmap_def
        MustOp_calc_self_bitmap_def make_path_field_exclude_copy_def Let_def bits_of_def
        bits_Exclude_p bits_full split: prod.splits)
next
  case False
  show ?thesis
  proof (cases "length C = 1")
    case True
    show ?thesis
    proof (cases "field_bitmap_groups_map fs F")
      case None
      then show ?thesis using False True assms(2)
        by (simp add: MustNotOp_calc_bitmap_def MustOp_calc_bitmap_def MustNotOp_calc_self_bitmap_def
            MustOp_calc_self_bitmap_def make_field_exclude_copy_def make_field_copy_def
            make_field_copy_key_def FieldBitmapGroupSet_get_bitmap_def Let_def bits_of_def
            bits_Exclude_p bits_full)
    next
      case (Some g)
      then show ?thesis using False True assms(2)
        by (simp add: MustNotOp_calc_bitmap_def MustOp_calc_bitmap_def MustNotOp_calc_self_bitmap_def
            MustOp_calc_self_bitmap_def make_field_exclude_copy_def make_field_copy_def
            make_field_copy_key_def FieldBitmapGroupSet_get_bitmap_def get_bitmap_copy_def
            get_bitmap_def Let_def bits_of_def bits_Exclude_p bits_full bits_copy_p
            split: prod.splits)
    qed
  next
    case F2: False
    then have "length C > 1" using assms(2) by (cases C) auto
    then show ?thesis using False F2
      by (simp add: MustNotOp_calc_bitmap_def MustOp_calc_bitmap_def MustNotOp_calc_self_bitmap_def
          MustOp_calc_self_bitmap_def make_field_exclude_copy_def Let_def bits_of_def
          bits_Exclude_p bits_full split: prod.splits)
  qed
qed

theorem must_not_is_complement_witness:
  "0 < fs_element_size title_fs \<and> [''apple''] \<noteq> []
   \<and> bits_of (fst (MustNotOp_calc_bitmap
               \<lparr>op_field = ''title'', op_type_conds = [''apple''], op_depth = -1\<rparr> title_fs None ''or''))
       = {0 ..< of_nat (fs_element_size title_fs)}
         - bits_of (fst (MustOp_calc_bitmap
               \<lparr>op_field = ''title'', op_type_conds = [''apple''], op_depth = -1\<rparr> title_fs None ''or''))"
proof -
  have h: "0 < fs_element_size title_fs" "[''apple''] \<noteq> []" by (simp_all add: title_fs_misc)
  show ?thesis using h must_not_is_complement[OF h, of "''title''" "-1" "''or''"] by simp
qed

text \<open>
  C6.  The claim is that evaluating a filter leaves the field set unchanged, also for
  \<open>must\<close> with a key never written.  \<open>get_bitmap\<close> forwards to \<open>get_editable_bitmap\<close>,
  which inserts a fresh bitmap for a missing key: after \<open>must(title, [cherry])\<close> the
  bitmap map of \<open>title\<close> has an entry for \<open>cherry\<close> that it did not have before.
\<close>

theorem must_inserts_missing_key:
  "stored_bitmap title_fs ''title'' ''cherry'' = None
   \<and> stored_bitmap (snd (MustOp_calc_bitmap cherry_op title_fs None ''or'')) ''title'' ''cherry''
       = Some Bitmap_init
   \<and> snd (MustOp_calc_bitmap cherry_op title_fs None ''or'') \<noteq> title_fs"
proof -
  have a: "stored_bitmap title_fs ''title'' ''cherry'' = None"
    by (simp add: stored_bitmap_def title_fs_title)
  have b: "stored_bitmap (snd (MustOp_calc_bitmap cherry_op title_fs None ''or'')) ''title'' ''cherry''
       = Some Bitmap_init"
    by (simp add: stored_bitmap_def title_fs_title title_fs_misc cherry_op_def MustOp_calc_bitmap_def
        MustOp_calc_self_bitmap_def is_path_field_name_def make_field_copy_def make_field_copy_key_def
        get_bitmap_copy_def get_bitmap_def get_editable_bitmap_def)
  have "snd (MustOp_calc_bitmap cherry_op title_fs None ''or'') \<noteq> title_fs"
    using a b by auto
  with a b show ?thesis by simp
qed

section \<open>Ranged map: top-k with conditions and the 2-D radius query\<close>

text \<open>
  Claim C4. \<open>top_k_with_conditions\<close> is to collect its bucket in the direction of the
  primary order, the extreme primary values first. In \<open>five_map\<close> the values 1 to 5 sit at
  the offsets 0 to 4 in the two slots \<open>[1, 2]\<close> and \<open>[3, 4, 5]\<close>. Asked for the top 1 in
  descending order, with no filter and no further condition, the function answers offset 1
  with the value 2, although offset 4 holds the value 5: the walk over the slots starts at
  slot 0 whatever the order is, only the walk inside a slot is reversed, and the bucket of
  \<open>2 * 1\<close> entries is full before the second slot is reached.
\<close>

theorem topk_desc_scans_from_lowest_slot:
  "get_topk_result_with_conditions five_map 1 False None [] = ([Some 2], [1])
   \<and> get_score_by_offset five_map 4 = Some 5
   \<and> map offset_vec (slots five_map) = [[0, 1], [2, 3, 4]]
   \<and> map value_vec (slots five_map) = [[1, 2], [3, 4, 5]]"
  by code_simp

text \<open>
  Claim C10. A 2-D radius query with a radius that is not positive returns null, whatever
  the two maps hold and whatever the centre is.
\<close>

theorem radius_nonpositive_returns_null:
  "radius \<le> 0 \<Longrightarrow> get_range2d_bitmap m x y radius = None"
  by (simp add: get_range2d_bitmap_def get_range2d_bitmap_with_slot_data_def)

text \<open>
  In \<open>point_map\<close> offset 0 lies at \<open>(1, 2)\<close>: its squared distance to the centre \<open>(1, 2)\<close> is 0,
  and the query with radius 0 returns null.
\<close>

theorem radius_nonpositive_returns_null_witness:
  "get_range2d_bitmap point_map 1 2 0 = None \<and> dist_square_to point_map 1 2 0 = Some 0"
proof -
  have "dist_square_to point_map 1 2 0 = Some 0" by code_simp
  with radius_nonpositive_returns_null [of 0 point_map 1 2] show ?thesis by simp
qed
end
